theory Spec2Isabelle
  imports Main "HOL-Library.Word" "HOL-Library.Multiset" "HOL-Library.AList"
begin

section \<open>Python values and errors\<close>

text \<open>
  The module \<^verbatim>\<open>instruments/named_struct.py\<close> is embedded with Python 3 semantics.
  A \<^verbatim>\<open>bytes\<close> object is a list of 8-bit words, a \<^verbatim>\<open>str\<close> is the list of its code
  points. The values a field can hold in this model are \<^verbatim>\<open>None\<close>, booleans, integers,
  byte strings and text; floating-point numbers are outside the embedding.
  Every exception the code can raise is a value of \<open>error\<close>; \<open>NotModelled\<close> marks the
  places where Python continues with a value this embedding has no model of.
\<close>

type_synonym byte = "8 word"

datatype pyval = PNone | PBool bool | PInt int | PBytes "byte list" | PStr "nat list"

datatype error =
    StructError | TypeError | ValueError | KeyError | AttributeError
  | UnicodeEncodeError | UnicodeDecodeError | NotModelled

text \<open>Python's \<^verbatim>\<open>==\<close> on these values: \<^verbatim>\<open>bool\<close> is a subclass of \<^verbatim>\<open>int\<close>, so
  \<^verbatim>\<open>True == 1\<close>; values of unrelated types are unequal.\<close>

fun py_eq :: "pyval \<Rightarrow> pyval \<Rightarrow> bool" where
  "py_eq PNone PNone = True"
| "py_eq (PBool a) (PBool b) = (a = b)"
| "py_eq (PBool a) (PInt j) = ((if a then 1 else 0) = j)"
| "py_eq (PInt i) (PBool b) = (i = (if b then 1 else 0))"
| "py_eq (PInt i) (PInt j) = (i = j)"
| "py_eq (PBytes a) (PBytes b) = (a = b)"
| "py_eq (PStr a) (PStr b) = (a = b)"
| "py_eq _ _ = False"

section \<open>Text helpers of the Python runtime\<close>

text \<open>\<^verbatim>\<open>str.strip()\<close> removes the characters for which \<^verbatim>\<open>str.isspace\<close> holds; among
  the code points below 256 these are 9-13, 28-32, 133 and 160.\<close>

definition is_space :: "char \<Rightarrow> bool" where
  "is_space c = (let n = (of_char c :: nat) in
     (9 \<le> n \<and> n \<le> 13) \<or> (28 \<le> n \<and> n \<le> 32) \<or> n = 133 \<or> n = 160)"

definition py_strip :: "string \<Rightarrow> string" where
  "py_strip s = rev (dropWhile is_space (rev (dropWhile is_space s)))"

definition is_digit :: "char \<Rightarrow> bool" where
  "is_digit c = (let n = (of_char c :: nat) in 48 \<le> n \<and> n \<le> 57)"

definition digit_val :: "char \<Rightarrow> nat" where
  "digit_val c = of_char c - 48"

definition digit_char :: "nat \<Rightarrow> char" where
  "digit_char d = char_of (48 + d)"

text \<open>\<^verbatim>\<open>'{}'.format(n)\<close> for an integer: its decimal digits, with a minus sign when
  negative.\<close>

fun show_nat :: "nat \<Rightarrow> string" where
  "show_nat n = (if n < 10 then [digit_char n] else show_nat (n div 10) @ [digit_char (n mod 10)])"

declare show_nat.simps [simp del]

definition show_int :: "int \<Rightarrow> string" where
  "show_int i = (if i < 0 then CHR ''-'' # show_nat (nat (- i)) else show_nat (nat i))"

text \<open>\<^verbatim>\<open>int(s)\<close> as \<^verbatim>\<open>Field.__len__\<close> calls it, on the one-character string
  \<^verbatim>\<open>self._fmt[-1]\<close>: a decimal digit is converted, anything else raises
  \<^verbatim>\<open>ValueError\<close>.\<close>

definition py_int_of_char :: "char \<Rightarrow> error + int" where
  "py_int_of_char c = (if is_digit c then Inr (int (digit_val c)) else Inl ValueError)"

text \<open>\<^verbatim>\<open>str.rstrip('\x00')\<close>.\<close>

definition rstrip_null :: "nat list \<Rightarrow> nat list" where
  "rstrip_null t = rev (dropWhile (\<lambda>c. c = 0) (rev t))"

text \<open>The codecs. Only \<^verbatim>\<open>'ascii'\<close> (the default of \<^verbatim>\<open>StringField\<close>) and
  \<^verbatim>\<open>'latin-1'\<close> are modelled.\<close>

datatype encoding = Ascii | Latin1

definition codec_limit :: "encoding \<Rightarrow> nat" where
  "codec_limit enc = (case enc of Ascii \<Rightarrow> 128 | Latin1 \<Rightarrow> 256)"

definition py_encode :: "encoding \<Rightarrow> nat list \<Rightarrow> error + byte list" where
  "py_encode enc t =
     (if list_all (\<lambda>c. c < codec_limit enc) t then Inr (map of_nat t)
      else Inl UnicodeEncodeError)"

definition py_decode :: "encoding \<Rightarrow> byte list \<Rightarrow> error + nat list" where
  "py_decode enc b =
     (if list_all (\<lambda>x. unat x < codec_limit enc) b then Inr (map unat b)
      else Inl UnicodeDecodeError)"

section \<open>Fields\<close>

text \<open>
  A \<^verbatim>\<open>Field\<close> object. \<open>cls\<close> records which of the three classes it is an instance
  of, since \<^verbatim>\<open>__get__\<close> and \<^verbatim>\<open>__set__\<close> are dispatched on it; \<open>encoding\<close> is the
  class attribute \<^verbatim>\<open>_encoding\<close>, which only \<^verbatim>\<open>StringField\<close> reads.
  \<open>name\<close> and \<open>owner_type\<close> are \<^verbatim>\<open>None\<close> until the type builder binds them.
\<close>

datatype field_class = FieldCls | StringFieldCls | PaddingCls

record field =
  fmt :: string
  strip_null :: bool
  field_birthday :: nat
  name :: "string option"
  owner_type :: "string option"
  cls :: field_class
  encoding :: encoding

text \<open>The constructors take the class counter \<^verbatim>\<open>Field.__n_fields_created\<close> and
  return it incremented.\<close>

definition Field_init :: "nat \<Rightarrow> string \<Rightarrow> bool \<Rightarrow> field \<times> nat" where
  "Field_init n_fields_created f sn =
     (\<lparr>fmt = py_strip f, strip_null = sn, field_birthday = n_fields_created,
       name = None, owner_type = None, cls = FieldCls, encoding = Ascii\<rparr>,
      n_fields_created + 1)"

definition StringField_init :: "nat \<Rightarrow> int \<Rightarrow> encoding \<Rightarrow> bool \<Rightarrow> field \<times> nat" where
  "StringField_init n_fields_created len enc sn =
     (let (f, n') = Field_init n_fields_created (show_int len @ ''s'') False
      in (f\<lparr>cls := StringFieldCls, strip_null := sn, encoding := enc\<rparr>, n'))"

definition Padding_init :: "nat \<Rightarrow> int \<Rightarrow> field \<times> nat" where
  "Padding_init n_fields_created n_bytes =
     (let (f, n') = Field_init n_fields_created (show_int n_bytes @ ''x'') False
      in (f\<lparr>cls := PaddingCls\<rparr>, n'))"

definition endswith :: "string \<Rightarrow> string \<Rightarrow> bool" where
  "endswith s suffix =
     (length suffix \<le> length s \<and> drop (length s - length suffix) s = suffix)"

definition is_significant :: "field \<Rightarrow> bool" where
  "is_significant f = (\<not> endswith (fmt f) ''x'')"

text \<open>\<^verbatim>\<open>Field.__len__\<close>: \<^verbatim>\<open>self._fmt[:-1]\<close> is \<open>butlast\<close>, \<^verbatim>\<open>self._fmt[-1]\<close> is
  \<open>last\<close> (the format is not empty when \<open>butlast\<close> of it is not).\<close>

definition Field_len :: "field \<Rightarrow> error + int" where
  "Field_len f =
     (if butlast (fmt f) \<noteq> [] then
        (case py_int_of_char (last (fmt f)) of
           Inl e \<Rightarrow> Inl e
         | Inr len \<Rightarrow> if len < 0 then Inl TypeError else Inr (abs len))
      else Inl TypeError)"

section \<open>The struct module\<close>

text \<open>
  \<^verbatim>\<open>struct.Struct\<close> of the Python standard library, in native mode (the format
  strings the type builder compiles carry no byte-order prefix), with the sizes,
  alignments and byte order of CPython on x86-64 Linux (LP64, little-endian).
  The codes \<^verbatim>\<open>e\<close>, \<^verbatim>\<open>f\<close>, \<^verbatim>\<open>d\<close> (floating point) and \<^verbatim>\<open>p\<close> (Pascal string)
  have their sizes here, but packing and unpacking them is \<open>NotModelled\<close>.
\<close>

datatype code =
    Cx | Cc | Cb | CB | Cbool | Ch | CH | Ci | CI | Cl | CL | Cq | CQ | Cn | CN
  | Ce | Cf | Cd | Cs | Cp | CP

definition getentry :: "char \<Rightarrow> code option" where
  "getentry c = map_of
     [(CHR ''x'', Cx), (CHR ''c'', Cc), (CHR ''b'', Cb), (CHR ''B'', CB), (CHR ''?'', Cbool),
      (CHR ''h'', Ch), (CHR ''H'', CH), (CHR ''i'', Ci), (CHR ''I'', CI), (CHR ''l'', Cl),
      (CHR ''L'', CL), (CHR ''q'', Cq), (CHR ''Q'', CQ), (CHR ''n'', Cn), (CHR ''N'', CN),
      (CHR ''e'', Ce), (CHR ''f'', Cf), (CHR ''d'', Cd), (CHR ''s'', Cs), (CHR ''p'', Cp),
      (CHR ''P'', CP)] c"

fun code_size :: "code \<Rightarrow> nat" where
  "code_size Ch = 2" | "code_size CH = 2" | "code_size Ce = 2"
| "code_size Ci = 4" | "code_size CI = 4" | "code_size Cf = 4"
| "code_size Cl = 8" | "code_size CL = 8" | "code_size Cq = 8" | "code_size CQ = 8"
| "code_size Cn = 8" | "code_size CN = 8" | "code_size Cd = 8" | "code_size CP = 8"
| "code_size _ = 1"

text \<open>In native mode every scalar is aligned to its own size.\<close>

definition code_align :: "code \<Rightarrow> nat" where
  "code_align c = code_size c"

definition align_to :: "nat \<Rightarrow> nat \<Rightarrow> nat" where
  "align_to off a = ((off + a - 1) div a) * a"

text \<open>The format string: items separated by optional whitespace, each an optional
  decimal repeat count directly followed by a code character.\<close>

definition is_c_space :: "char \<Rightarrow> bool" where
  "is_c_space c = (let n = (of_char c :: nat) in (9 \<le> n \<and> n \<le> 13) \<or> n = 32)"

fun parse_count :: "nat \<Rightarrow> string \<Rightarrow> nat \<times> string" where
  "parse_count acc [] = (acc, [])"
| "parse_count acc (c # cs) =
     (if is_digit c then parse_count (acc * 10 + digit_val c) cs else (acc, c # cs))"

definition split_count :: "string \<Rightarrow> nat \<times> string" where
  "split_count s = (case s of [] \<Rightarrow> (1, [])
     | c # cs \<Rightarrow> if is_digit c then parse_count 0 s else (1, s))"

lemma parse_count_length: "length (snd (parse_count acc s)) \<le> length s"
  by (induction s arbitrary: acc) (auto simp: le_SucI)

lemma split_count_length: "length (snd (split_count s)) \<le> length s"
  using parse_count_length [of 0 s] by (auto simp: split_count_def split: list.splits)

function parse_format :: "string \<Rightarrow> error + (code \<times> nat) list" where
  "parse_format [] = Inr []"
| "parse_format (c # cs) =
     (if is_c_space c then parse_format cs
      else (case snd (split_count (c # cs)) of
              [] \<Rightarrow> Inl StructError
            | d # rest \<Rightarrow>
                (case getentry d of
                   None \<Rightarrow> Inl StructError
                 | Some e \<Rightarrow>
                     (case parse_format rest of
                        Inl err \<Rightarrow> Inl err
                      | Inr items \<Rightarrow> Inr ((e, fst (split_count (c # cs))) # items)))))"
  by pat_completeness auto
termination
proof (relation "measure length")
  show "wf (measure length)" by simp
next
  fix c cs
  show "(cs, c # cs) \<in> measure length" by simp
next
  fix c :: char and cs d rest e
  assume "snd (split_count (c # cs)) = d # rest"
  then have "Suc (length rest) \<le> length (c # cs)"
    using split_count_length [of "c # cs"] by simp
  then show "(rest, c # cs) \<in> measure length" by simp
qed

text \<open>The compiled layout: the bytes of a structure are a sequence of cells, each
  either filler (an \<^verbatim>\<open>x\<close> item or an alignment gap, packed as zero bytes and skipped
  when unpacking) or the slot of one value.\<close>

datatype slot =
    SChar | SInt bool nat | SBool | SBytes nat | SPointer | SFloat nat | SPascal nat

datatype cell = Fill nat | Slot slot

fun item_cells :: "code \<Rightarrow> nat \<Rightarrow> cell list" where
  "item_cells Cx n = [Fill n]"
| "item_cells Cs n = [Slot (SBytes n)]"
| "item_cells Cp n = [Slot (SPascal n)]"
| "item_cells Cc n = replicate n (Slot SChar)"
| "item_cells Cbool n = replicate n (Slot SBool)"
| "item_cells Cb n = replicate n (Slot (SInt True 1))"
| "item_cells CB n = replicate n (Slot (SInt False 1))"
| "item_cells Ch n = replicate n (Slot (SInt True 2))"
| "item_cells CH n = replicate n (Slot (SInt False 2))"
| "item_cells Ci n = replicate n (Slot (SInt True 4))"
| "item_cells CI n = replicate n (Slot (SInt False 4))"
| "item_cells Cl n = replicate n (Slot (SInt True 8))"
| "item_cells CL n = replicate n (Slot (SInt False 8))"
| "item_cells Cq n = replicate n (Slot (SInt True 8))"
| "item_cells CQ n = replicate n (Slot (SInt False 8))"
| "item_cells Cn n = replicate n (Slot (SInt True 8))"
| "item_cells CN n = replicate n (Slot (SInt False 8))"
| "item_cells CP n = replicate n (Slot SPointer)"
| "item_cells Ce n = replicate n (Slot (SFloat 2))"
| "item_cells Cf n = replicate n (Slot (SFloat 4))"
| "item_cells Cd n = replicate n (Slot (SFloat 8))"



fun is_slot :: "cell \<Rightarrow> bool" where
  "is_slot (Fill n) = False"
| "is_slot (Slot sl) = True"

text \<open>\<open>calcsize off items\<close> is the offset reached after laying the items out from
  offset \<open>off\<close>: each item starts at the next multiple of its alignment.\<close>

fun calcsize :: "nat \<Rightarrow> (code \<times> nat) list \<Rightarrow> nat" where
  "calcsize off [] = off"
| "calcsize off ((c, num) # items) =
     calcsize (align_to off (code_align c) + num * code_size c) items"

fun cells_of :: "nat \<Rightarrow> (code \<times> nat) list \<Rightarrow> cell list" where
  "cells_of off [] = []"
| "cells_of off ((c, num) # items) =
     Fill (align_to off (code_align c) - off) # item_cells c num @
     cells_of (align_to off (code_align c) + num * code_size c) items"

record pystruct =
  s_format :: string
  s_size :: nat
  s_len :: nat
  s_cells :: "cell list"

definition ssize_max :: nat where
  "ssize_max = 2 ^ 63 - 1"

definition is_ascii :: "char \<Rightarrow> bool" where
  "is_ascii c = ((of_char c :: nat) < 128)"

text \<open>\<^verbatim>\<open>struct.Struct(format)\<close>: the format must be ASCII, must parse, and its total
  size must fit \<^verbatim>\<open>ssize_t\<close>.\<close>

definition Struct_new :: "string \<Rightarrow> error + pystruct" where
  "Struct_new f =
     (if \<not> list_all is_ascii f then Inl UnicodeEncodeError
      else (case parse_format f of
              Inl e \<Rightarrow> Inl e
            | Inr items \<Rightarrow>
                if calcsize 0 items > ssize_max then Inl StructError
                else Inr \<lparr>s_format = f, s_size = calcsize 0 items,
                          s_len = length (filter is_slot (cells_of 0 items)),
                          s_cells = cells_of 0 items\<rparr>))"

text \<open>Little-endian bytes of a natural number, and back.\<close>

fun le_bytes :: "nat \<Rightarrow> nat \<Rightarrow> byte list" where
  "le_bytes 0 v = []"
| "le_bytes (Suc k) v = of_nat (v mod 256) # le_bytes k (v div 256)"


text \<open>What the integer codes accept: an \<^verbatim>\<open>int\<close> or a \<^verbatim>\<open>bool\<close> (through
  \<^verbatim>\<open>__index__\<close>); \<^verbatim>\<open>None\<close>, \<^verbatim>\<open>bytes\<close> and \<^verbatim>\<open>str\<close> raise \<^verbatim>\<open>struct.error\<close>.\<close>

definition as_index :: "pyval \<Rightarrow> int option" where
  "as_index v = (case v of PInt i \<Rightarrow> Some i | PBool b \<Rightarrow> Some (if b then 1 else 0)
     | _ \<Rightarrow> None)"

text \<open>\<^verbatim>\<open>bool(v)\<close>, which the code \<^verbatim>\<open>?\<close> applies to any object.\<close>

fun truthy :: "pyval \<Rightarrow> bool" where
  "truthy PNone = False"
| "truthy (PBool b) = b"
| "truthy (PInt i) = (i \<noteq> 0)"
| "truthy (PBytes b) = (b \<noteq> [])"
| "truthy (PStr t) = (t \<noteq> [])"

definition pack_int :: "int \<Rightarrow> int \<Rightarrow> nat \<Rightarrow> pyval \<Rightarrow> error + byte list" where
  "pack_int lo hi k v =
     (case as_index v of
        None \<Rightarrow> Inl StructError
      | Some i \<Rightarrow>
          if lo \<le> i \<and> i < hi then Inr (le_bytes k (nat (i mod 2 ^ (8 * k))))
          else Inl StructError)"

fun pack_slot :: "slot \<Rightarrow> pyval \<Rightarrow> error + byte list" where
  "pack_slot (SInt True k) v = pack_int (- (2 ^ (8 * k - 1))) (2 ^ (8 * k - 1)) k v"
| "pack_slot (SInt False k) v = pack_int 0 (2 ^ (8 * k)) k v"
| "pack_slot SPointer v = pack_int (- (2 ^ 63)) (2 ^ 64) 8 v"
| "pack_slot SBool v = Inr [if truthy v then 1 else 0]"
| "pack_slot SChar v = (case v of PBytes [b] \<Rightarrow> Inr [b] | _ \<Rightarrow> Inl StructError)"
| "pack_slot (SBytes n) v =
     (case v of PBytes b \<Rightarrow> Inr (take n (b @ replicate n 0)) | _ \<Rightarrow> Inl StructError)"
| "pack_slot (SFloat k) v = Inl NotModelled"
| "pack_slot (SPascal n) v = Inl NotModelled"


fun pack_cells :: "cell list \<Rightarrow> pyval list \<Rightarrow> error + byte list" where
  "pack_cells [] vs = Inr []"
| "pack_cells (Fill n # cs) vs =
     (case pack_cells cs vs of Inl e \<Rightarrow> Inl e | Inr bs \<Rightarrow> Inr (replicate n 0 @ bs))"
| "pack_cells (Slot sl # cs) [] = Inl StructError"
| "pack_cells (Slot sl # cs) (v # vs) =
     (case pack_slot sl v of
        Inl e \<Rightarrow> Inl e
      | Inr b \<Rightarrow> (case pack_cells cs vs of Inl e \<Rightarrow> Inl e | Inr bs \<Rightarrow> Inr (b @ bs)))"


text \<open>\<^verbatim>\<open>Struct.pack\<close> checks the number of its arguments first;
  \<^verbatim>\<open>Struct.unpack(buffer)\<close> checks the length of the buffer first.\<close>

definition Struct_pack :: "pystruct \<Rightarrow> pyval list \<Rightarrow> error + byte list" where
  "Struct_pack s args =
     (if length args \<noteq> s_len s then Inl StructError else pack_cells (s_cells s) args)"


section \<open>The type builder\<close>

text \<open>
  \<^verbatim>\<open>OrderedDict(items)\<close>: the pairs are inserted one after the other; a key that is
  already present keeps its position and takes the new value.
\<close>

definition OrderedDict :: "('k \<times> 'v) list \<Rightarrow> ('k \<times> 'v) list" where
  "OrderedDict items = fold (\<lambda>(k, v) d. AList.update k v d) items []"

text \<open>An attribute of a class body is a \<^verbatim>\<open>Field\<close> instance or any other object.\<close>

datatype attr = AField field | AOther pyval

fun field_items :: "(string \<times> attr) list \<Rightarrow> (string \<times> field) list" where
  "field_items [] = []"
| "field_items ((n, AField f) # as) = (n, f) # field_items as"
| "field_items ((n, AOther v) # as) = field_items as"

fun join_space :: "string list \<Rightarrow> string" where
  "join_space [] = []"
| "join_space [x] = x"
| "join_space (x # y # ys) = x @ '' '' @ join_space (y # ys)"

record struct_type =
  cls_name :: string
  cls_fields :: "(string \<times> field) list"
  cls_struct :: pystruct

text \<open>
  Attribute names that belong to the machinery of \<^verbatim>\<open>NamedStruct\<close> and of Python
  objects. A field of such a name, or an assignment to such a name on an instance,
  changes how the instance itself works and is \<open>NotModelled\<close>.
\<close>

definition reserved :: "string \<Rightarrow> bool" where
  "reserved n = (take 2 n = ''__'' \<or>
     n \<in> set [''_values'', ''_fields'', ''_struct'', ''_to_seq'', ''_from_seq'',
               ''pack'', ''unpack''])"

definition bind_field :: "string \<Rightarrow> string \<times> field \<Rightarrow> string \<times> field" where
  "bind_field owner item =
     (fst item, (snd item)\<lparr>name := Some (fst item), owner_type := Some owner\<rparr>)"

text \<open>\<^verbatim>\<open>HasFields.__new__(mcs, name, bases, attrs)\<close> for a class declared directly
  under \<^verbatim>\<open>NamedStruct\<close>; \<open>attrs\<close> lists the class body in the order in which
  \<^verbatim>\<open>attrs.items()\<close> iterates.\<close>

definition HasFields_new :: "string \<Rightarrow> (string \<times> attr) list \<Rightarrow> error + struct_type" where
  "HasFields_new nm attrs =
     (let fs = map (bind_field nm)
                 (OrderedDict (sort_key (\<lambda>item. field_birthday (snd item)) (field_items attrs)))
      in if list_ex reserved (map fst fs) then Inl NotModelled
         else (case Struct_new (join_space (map (\<lambda>item. fmt (snd item)) fs)) of
                 Inl e \<Rightarrow> Inl e
               | Inr s \<Rightarrow> Inr \<lparr>cls_name = nm, cls_fields = fs, cls_struct = s\<rparr>))"

definition significant_fields :: "struct_type \<Rightarrow> field list" where
  "significant_fields c = filter is_significant (map snd (cls_fields c))"

section \<open>Instances\<close>

text \<open>
  An instance holds \<^verbatim>\<open>self._values\<close> (an ordered mapping; its keys are the
  \<^verbatim>\<open>_name\<close> of fields, so they are optional strings) and the other attributes set on
  it, which live in its \<^verbatim>\<open>__dict__\<close>.
\<close>

record named_struct =
  inst_type :: struct_type
  field_values :: "(string option \<times> pyval) list"
  attributes :: "(string \<times> pyval) list"

text \<open>The descriptor protocol. \<^verbatim>\<open>Field.__get__\<close>, \<^verbatim>\<open>Field.__set__\<close>:\<close>

definition Field_get :: "field \<Rightarrow> named_struct \<Rightarrow> error + pyval" where
  "Field_get f obj =
     (case map_of (field_values obj) (name f) of None \<Rightarrow> Inl KeyError | Some v \<Rightarrow> Inr v)"

definition Field_set :: "field \<Rightarrow> named_struct \<Rightarrow> pyval \<Rightarrow> error + named_struct" where
  "Field_set f obj v = Inr (obj\<lparr>field_values := AList.update (name f) v (field_values obj)\<rparr>)"

text \<open>\<^verbatim>\<open>StringField.__set__\<close>: the three steps on \<open>value\<close>, then the inherited
  setter. \<^verbatim>\<open>rstrip\<close> and \<^verbatim>\<open>encode\<close> exist on text only.\<close>

definition decode_if_bytes :: "encoding \<Rightarrow> pyval \<Rightarrow> error + pyval" where
  "decode_if_bytes enc v =
     (case v of
        PBytes b \<Rightarrow> (case py_decode enc b of Inl e \<Rightarrow> Inl e | Inr t \<Rightarrow> Inr (PStr t))
      | _ \<Rightarrow> Inr v)"

definition value_rstrip :: "pyval \<Rightarrow> error + pyval" where
  "value_rstrip v = (case v of PStr t \<Rightarrow> Inr (PStr (rstrip_null t)) | _ \<Rightarrow> Inl AttributeError)"

definition value_encode :: "encoding \<Rightarrow> pyval \<Rightarrow> error + pyval" where
  "value_encode enc v =
     (case v of
        PStr t \<Rightarrow> (case py_encode enc t of Inl e \<Rightarrow> Inl e | Inr b \<Rightarrow> Inr (PBytes b))
      | _ \<Rightarrow> Inl AttributeError)"

definition StringField_set :: "field \<Rightarrow> named_struct \<Rightarrow> pyval \<Rightarrow> error + named_struct" where
  "StringField_set f obj v =
     (case decode_if_bytes (encoding f) v of
        Inl e \<Rightarrow> Inl e
      | Inr v1 \<Rightarrow>
          (case (if strip_null f then value_rstrip v1 else Inr v1) of
             Inl e \<Rightarrow> Inl e
           | Inr v2 \<Rightarrow>
               (case value_encode (encoding f) v2 of
                  Inl e \<Rightarrow> Inl e
                | Inr v3 \<Rightarrow> Field_set f obj v3)))"

text \<open>\<^verbatim>\<open>StringField.__get__\<close> evaluates the decoding and has no \<^verbatim>\<open>return\<close>
  statement, so a call that does not raise returns \<^verbatim>\<open>None\<close>. Only \<^verbatim>\<open>bytes\<close> has a
  \<^verbatim>\<open>decode\<close> method.\<close>

definition StringField_get :: "field \<Rightarrow> named_struct \<Rightarrow> error + pyval" where
  "StringField_get f obj =
     (case Field_get f obj of
        Inl e \<Rightarrow> Inl e
      | Inr v \<Rightarrow>
          (case v of
             PBytes b \<Rightarrow> (case py_decode (encoding f) b of Inl e \<Rightarrow> Inl e | Inr t \<Rightarrow> Inr PNone)
           | _ \<Rightarrow> Inl AttributeError))"

text \<open>Dispatch on the class of the field.\<close>

definition field_get :: "field \<Rightarrow> named_struct \<Rightarrow> error + pyval" where
  "field_get f obj = (if cls f = StringFieldCls then StringField_get f obj else Field_get f obj)"

definition field_set :: "field \<Rightarrow> named_struct \<Rightarrow> pyval \<Rightarrow> error + named_struct" where
  "field_set f obj v =
     (if cls f = StringFieldCls then StringField_set f obj v else Field_set f obj v)"

text \<open>\<^verbatim>\<open>setattr(self, field_name, value)\<close>: a field of the type is a data descriptor
  and its \<^verbatim>\<open>__set__\<close> runs; any other name becomes an attribute of the instance.\<close>

definition NamedStruct_setattr :: "named_struct \<Rightarrow> string \<Rightarrow> pyval \<Rightarrow> error + named_struct" where
  "NamedStruct_setattr obj n v =
     (case map_of (cls_fields (inst_type obj)) n of
        Some f \<Rightarrow> field_set f obj v
      | None \<Rightarrow>
          if reserved n then Inl NotModelled
          else Inr (obj\<lparr>attributes := AList.update n v (attributes obj)\<rparr>))"

text \<open>Reading an attribute of an instance: a field's \<^verbatim>\<open>__get__\<close>, or the attribute
  set on the instance.\<close>

definition NamedStruct_getattr :: "named_struct \<Rightarrow> string \<Rightarrow> error + pyval" where
  "NamedStruct_getattr obj n =
     (case map_of (cls_fields (inst_type obj)) n of
        Some f \<Rightarrow> field_get f obj
      | None \<Rightarrow>
          if reserved n then Inl NotModelled
          else (case map_of (attributes obj) n of
                  None \<Rightarrow> Inl AttributeError | Some v \<Rightarrow> Inr v))"

fun setattrs :: "named_struct \<Rightarrow> (string \<times> pyval) list \<Rightarrow> error + named_struct" where
  "setattrs obj [] = Inr obj"
| "setattrs obj ((n, v) # kwargs) =
     (case NamedStruct_setattr obj n v of
        Inl e \<Rightarrow> Inl e
      | Inr obj' \<Rightarrow> setattrs obj' kwargs)"

text \<open>\<^verbatim>\<open>NamedStruct.__init__(self, **kwargs)\<close>.\<close>

definition NamedStruct_init :: "struct_type \<Rightarrow> (string \<times> pyval) list \<Rightarrow> error + named_struct" where
  "NamedStruct_init c kwargs =
     setattrs
       \<lparr>inst_type = c,
        field_values = OrderedDict (map (\<lambda>f. (name f, PNone)) (significant_fields c)),
        attributes = []\<rparr>
       kwargs"

definition to_seq :: "named_struct \<Rightarrow> pyval list" where
  "to_seq obj = map snd (field_values obj)"



definition NamedStruct_pack :: "named_struct \<Rightarrow> error + byte list" where
  "NamedStruct_pack obj = Struct_pack (cls_struct (inst_type obj)) (to_seq obj)"


text \<open>\<^verbatim>\<open>OrderedDict.__eq__\<close> between two ordered mappings: equal as mappings (the same
  keys, with \<^verbatim>\<open>==\<close> values) and the same order of keys.\<close>

definition odict_eq :: "('k \<times> pyval) list \<Rightarrow> ('k \<times> pyval) list \<Rightarrow> bool" where
  "odict_eq d e =
     (length d = length e \<and>
      list_all (\<lambda>(k, v). case map_of e k of None \<Rightarrow> False | Some w \<Rightarrow> py_eq v w) d \<and>
      map fst d = map fst e)"

text \<open>\<^verbatim>\<open>NamedStruct.__eq__(self, other)\<close>; \<open>other\<close> is an instance of some
  structure type or any other object.\<close>

datatype pyobj = Obj named_struct | NotStruct pyval

definition NamedStruct_eq :: "named_struct \<Rightarrow> pyobj \<Rightarrow> bool" where
  "NamedStruct_eq self other =
     (case other of
        NotStruct v \<Rightarrow> False
      | Obj other_struct \<Rightarrow> odict_eq (field_values self) (field_values other_struct))"

section \<open>Widths\<close>




section \<open>The slots of a layout\<close>



section \<open>Values that a round trip reproduces\<close>








section \<open>Class bodies\<close>




section \<open>Scenarios\<close>

text \<open>Sequencing of calls that can raise, used to state what a sequence of calls on
  concrete inputs returns.\<close>

definition and_then :: "error + 'a \<Rightarrow> ('a \<Rightarrow> error + 'b) \<Rightarrow> error + 'b" where
  "and_then r f = (case r of Inl e \<Rightarrow> Inl e | Inr x \<Rightarrow> f x)"



definition Foo :: struct_type where
  "Foo =
     \<lparr>cls_name = ''Foo'',
      cls_fields =
        [(''a'', \<lparr>fmt = ''L'', strip_null = False, field_birthday = 0, name = Some ''a'',
                  owner_type = Some ''Foo'', cls = FieldCls, encoding = Ascii\<rparr>),
         (''dummy'', \<lparr>fmt = ''12x'', strip_null = False, field_birthday = 1,
                  name = Some ''dummy'', owner_type = Some ''Foo'', cls = PaddingCls,
                  encoding = Ascii\<rparr>),
         (''b'', \<lparr>fmt = ''B'', strip_null = False, field_birthday = 2, name = Some ''b'',
                  owner_type = Some ''Foo'', cls = FieldCls, encoding = Ascii\<rparr>)],
      cls_struct =
        \<lparr>s_format = ''L 12x B'', s_size = 21, s_len = 2,
         s_cells = [Fill 0, Slot (SInt False 8), Fill 0, Fill 12, Fill 0, Slot (SInt False 1)]\<rparr>\<rparr>"

definition Foo_obj :: named_struct where
  "Foo_obj =
     \<lparr>inst_type = Foo,
      field_values = [(Some ''a'', PInt 0x1234), (Some ''b'', PInt 0xab)],
      attributes = []\<rparr>"




section \<open>Decimal rendering and the formats of the field constructors\<close>

lemma is_digit_digit_char: "d < 10 \<Longrightarrow> is_digit (digit_char d)"
  by (simp add: is_digit_def digit_char_def)


lemma show_nat_digits: "list_all is_digit (show_nat n)"
proof (induction n rule: show_nat.induct)
  case (1 n)
  show ?case
  proof (cases "n < 10")
    case True
    then show ?thesis by (subst show_nat.simps) (simp add: is_digit_digit_char)
  next
    case False
    then show ?thesis using 1 by (subst show_nat.simps) (simp add: is_digit_digit_char)
  qed
qed

lemma show_nat_not_Nil: "show_nat n \<noteq> []"
  by (subst show_nat.simps) simp

lemma is_digit_not_space: "is_digit c \<Longrightarrow> \<not> is_space c"
  by (auto simp: is_digit_def is_space_def Let_def)

lemma dropWhile_hd_id: "xs \<noteq> [] \<Longrightarrow> \<not> P (hd xs) \<Longrightarrow> dropWhile P xs = xs"
  by (cases xs) auto

lemma py_strip_id:
  assumes "s \<noteq> []" "\<not> is_space (hd s)" "\<not> is_space (last s)"
  shows "py_strip s = s"
proof -
  have a: "dropWhile is_space s = s" using assms by (simp add: dropWhile_hd_id)
  have "rev s \<noteq> []" "\<not> is_space (hd (rev s))" using assms by (auto simp: hd_rev)
  then have b: "dropWhile is_space (rev s) = rev s" by (rule dropWhile_hd_id)
  show ?thesis by (simp add: py_strip_def a b)
qed

lemma show_int_not_Nil: "show_int i \<noteq> []"
  by (simp add: show_int_def show_nat_not_Nil)

lemma hd_show_int_not_space: "\<not> is_space (hd (show_int i))"
proof (cases "i < 0")
  case True
  then show ?thesis by (simp add: show_int_def is_space_def)
next
  case False
  have "is_digit (hd (show_nat (nat i)))"
    using show_nat_digits [of "nat i"] show_nat_not_Nil [of "nat i"]
    by (cases "show_nat (nat i)") auto
  then show ?thesis using False by (simp add: show_int_def is_digit_not_space)
qed

lemma py_strip_show_int:
  assumes "\<not> is_space c"
  shows "py_strip (show_int i @ [c]) = show_int i @ [c]"
proof (rule py_strip_id)
  show "show_int i @ [c] \<noteq> []" by simp
  show "\<not> is_space (hd (show_int i @ [c]))"
    using hd_show_int_not_space [of i] show_int_not_Nil [of i] by simp
  show "\<not> is_space (last (show_int i @ [c]))" using assms by simp
qed

lemma fmt_StringField_init: "fmt (fst (StringField_init n len enc sn)) = show_int len @ ''s''"
  by (simp add: StringField_init_def Field_init_def py_strip_show_int is_space_def)

lemma fmt_Padding_init: "fmt (fst (Padding_init n len)) = show_int len @ ''x''"
  by (simp add: Padding_init_def Field_init_def py_strip_show_int is_space_def)

section \<open>The width query\<close>

text \<open>
  Claim C9. The width query \<^verbatim>\<open>Field.__len__\<close> should return \<open>N\<close> for a field whose
  format is an \<open>N\<close>-byte run. The code converts the last character of the format (the
  code character) instead of the count before it, so for every \<^verbatim>\<open>StringField(N)\<close> and
  every \<^verbatim>\<open>Padding(N)\<close> the query raises \<^verbatim>\<open>ValueError\<close>; \<^verbatim>\<open>StringField(8)\<close> is
  the concrete case. A scalar field (a format of one character) raises
  \<^verbatim>\<open>TypeError\<close>, as the claim says.
\<close>

theorem Field_len_byte_run:
  "Field_len (fst (StringField_init 0 8 Ascii False)) = Inl ValueError \<and>
   Field_len (fst (StringField_init n len enc sn)) = Inl ValueError \<and>
   Field_len (fst (Padding_init n len)) = Inl ValueError \<and>
   Field_len (fst (Field_init n [c] sn)) = Inl TypeError"
  by (simp add: Field_len_def fmt_StringField_init fmt_Padding_init show_int_not_Nil
      py_int_of_char_def is_digit_def Field_init_def py_strip_def)

section \<open>Evaluation of the definitions on concrete inputs\<close>

lemma digit_char_vals:
  "digit_char 0 = CHR ''0''" "digit_char 1 = CHR ''1''" "digit_char (Suc 0) = CHR ''1''"
  "digit_char 2 = CHR ''2''" "digit_char 3 = CHR ''3''" "digit_char 4 = CHR ''4''"
  "digit_char 5 = CHR ''5''" "digit_char 6 = CHR ''6''" "digit_char 7 = CHR ''7''"
  "digit_char 8 = CHR ''8''" "digit_char 9 = CHR ''9''"
  unfolding digit_char_def by code_simp+

lemmas char_simps = is_digit_def is_c_space_def is_space_def is_ascii_def digit_val_def
  getentry_def digit_char_vals

lemma ssize_max_val: "ssize_max = 9223372036854775807"
  by (simp add: ssize_max_def)

lemmas build_simps = HasFields_new_def OrderedDict_def bind_field_def reserved_def
  Struct_new_def split_count_def ssize_max_val align_to_def code_align_def
  Field_init_def StringField_init_def Padding_init_def py_strip_def show_int_def show_nat.simps

lemmas inst_simps = and_then_def NamedStruct_init_def significant_fields_def is_significant_def
  endswith_def NamedStruct_setattr_def NamedStruct_getattr_def field_set_def field_get_def
  StringField_set_def StringField_get_def Field_set_def Field_get_def
  decode_if_bytes_def value_rstrip_def value_encode_def py_encode_def py_decode_def
  codec_limit_def rstrip_null_def
  NamedStruct_pack_def Struct_pack_def to_seq_def pack_int_def as_index_def



lemma Foo_obj_built: "NamedStruct_init Foo [(''a'', PInt 0x1234), (''b'', PInt 0xab)] = Inr Foo_obj"
  by (simp add: Foo_def Foo_obj_def OrderedDict_def inst_simps)



section \<open>Reading and setting a string field\<close>

text \<open>
  Claim C4. Reading a string field should return the stored bytes decoded with the
  field's encoding. \<^verbatim>\<open>StringField.__get__\<close> computes the decoded text and drops it:
  the method has no \<^verbatim>\<open>return\<close>. For \<^verbatim>\<open>s = StringField(8)\<close> set to \<^verbatim>\<open>'hi'\<close> the
  instance stores \<^verbatim>\<open>b'hi'\<close>, which decodes to \<^verbatim>\<open>'hi'\<close>, and reading \<^verbatim>\<open>obj.s\<close>
  returns \<^verbatim>\<open>None\<close>; for no field and no instance does the getter return text.
\<close>

theorem StringField_get_returns_None:
  "and_then (HasFields_new ''S'' [(''s'', AField (fst (StringField_init 0 8 Ascii False)))])
     (\<lambda>S. and_then (NamedStruct_init S [(''s'', PStr [104, 105])])
       (\<lambda>obj. Inr (field_values obj, py_decode Ascii [104, 105], NamedStruct_getattr obj ''s'')))
   = Inr ([(Some ''s'', PBytes [104, 105])], Inr [104, 105], Inr PNone) \<and>
   StringField_get f obj' \<noteq> Inr (PStr t)"
proof
  show "and_then (HasFields_new ''S'' [(''s'', AField (fst (StringField_init 0 8 Ascii False)))])
     (\<lambda>S. and_then (NamedStruct_init S [(''s'', PStr [104, 105])])
       (\<lambda>obj. Inr (field_values obj, py_decode Ascii [104, 105], NamedStruct_getattr obj ''s'')))
   = Inr ([(Some ''s'', PBytes [104, 105])], Inr [104, 105], Inr PNone)"
    by (simp add: char_simps build_simps inst_simps)
  show "StringField_get f obj' \<noteq> Inr (PStr t)"
    by (auto simp: StringField_get_def split: sum.splits pyval.splits)
qed

lemma StringField_set_PStr:
  "StringField_set f obj (PStr t) =
     (case py_encode (encoding f) (if strip_null f then rstrip_null t else t) of
        Inl e \<Rightarrow> Inl e
      | Inr b \<Rightarrow>
          Inr (obj\<lparr>field_values := AList.update (name f) (PBytes b) (field_values obj)\<rparr>))"
  by (simp add: StringField_set_def decode_if_bytes_def value_rstrip_def value_encode_def
      Field_set_def split: sum.splits)

text \<open>
  Claim C5, as stated, fails: with \<^verbatim>\<open>strip_null\<close> enabled the setter strips the
  trailing null characters before it encodes. \<^verbatim>\<open>StringField(8, strip_null=True)\<close> set
  to \<^verbatim>\<open>'hi\x00'\<close> stores \<^verbatim>\<open>b'hi'\<close>, not the encoded value \<^verbatim>\<open>b'hi\x00'\<close>.
\<close>

theorem set_strips_null_counterexample:
  "and_then (HasFields_new ''S'' [(''s'', AField (fst (StringField_init 0 8 Ascii True)))])
     (\<lambda>S. and_then (NamedStruct_init S [(''s'', PStr [104, 105, 0])])
       (\<lambda>obj. Inr (field_values obj, py_encode Ascii [104, 105, 0])))
   = Inr ([(Some ''s'', PBytes [104, 105])], Inr [104, 105, 0])"
  by (simp add: char_simps build_simps inst_simps)

text \<open>
  Claim C5, amended. Setting a string field from text stores the encoding of the text
  with its trailing null characters stripped first when \<^verbatim>\<open>strip_null\<close> is enabled,
  and the encoding of the text as it is when \<^verbatim>\<open>strip_null\<close> is disabled; when
  the text cannot be encoded, the encoding error is raised and nothing is stored.
\<close>

theorem StringField_set_text:
  "StringField_set f obj (PStr t) =
     (case py_encode (encoding f) (if strip_null f then rstrip_null t else t) of
        Inl e \<Rightarrow> Inl e
      | Inr b \<Rightarrow>
          Inr (obj\<lparr>field_values := AList.update (name f) (PBytes b) (field_values obj)\<rparr>))"
  by (rule StringField_set_PStr)

section \<open>Construction from named values\<close>





section \<open>Equality of instances\<close>

lemma odict_values_eq:
  assumes "distinct (map fst e)" "set e' \<subseteq> set e" "map fst d = map fst e'"
  shows "list_all (\<lambda>(k, v). case map_of e k of None \<Rightarrow> False | Some w \<Rightarrow> py_eq v w) d =
         list_all2 py_eq (map snd d) (map snd e')"
  using assms(2,3)
proof (induction d arbitrary: e')
  case Nil
  then show ?case by simp
next
  case (Cons kv d)
  then obtain kw e'' where e': "e' = kw # e''" by (cases e') auto
  obtain k v where kv: "kv = (k, v)" by (cases kv)
  obtain k' w where kw: "kw = (k', w)" by (cases kw)
  have k: "k' = k" using Cons.prems by (simp add: e' kv kw)
  have "(k, w) \<in> set e" using Cons.prems by (auto simp: e' kw k)
  then have look: "map_of e k = Some w" using assms(1) by simp
  have "list_all (\<lambda>(k, v). case map_of e k of None \<Rightarrow> False | Some w \<Rightarrow> py_eq v w) d =
        list_all2 py_eq (map snd d) (map snd e'')"
    using Cons.prems by (intro Cons.IH) (auto simp: e')
  then show ?case by (simp add: e' kv kw look)
qed

lemma odict_eq_iff:
  assumes "distinct (map fst e)"
  shows "odict_eq d e \<longleftrightarrow>
    map fst d = map fst e \<and> list_all2 py_eq (map snd d) (map snd e)"
proof (cases "map fst d = map fst e")
  case True
  then have "length d = length e" by (metis length_map)
  then show ?thesis using odict_values_eq [OF assms subset_refl True] True
    by (simp add: odict_eq_def)
next
  case False
  then show ?thesis by (simp add: odict_eq_def)
qed

text \<open>
  Claim C2, as stated, fails: \<^verbatim>\<open>__eq__\<close> tests \<^verbatim>\<open>isinstance(other, NamedStruct)\<close>
  and never compares the two types. With \<^verbatim>\<open>class A(NamedStruct): x = Field('B')\<close> and
  \<^verbatim>\<open>class B(NamedStruct): x = Field('H')\<close>, \<^verbatim>\<open>A(x=1) == B(x=1)\<close> is true.
\<close>

theorem eq_across_types_counterexample:
  "and_then (HasFields_new ''A'' [(''x'', AField (fst (Field_init 0 ''B'' False)))])
     (\<lambda>A. and_then (HasFields_new ''B'' [(''x'', AField (fst (Field_init 1 ''H'' False)))])
       (\<lambda>B. and_then (NamedStruct_init A [(''x'', PInt 1)])
         (\<lambda>a. and_then (NamedStruct_init B [(''x'', PInt 1)])
           (\<lambda>b. Inr (cls_name (inst_type a), s_format (cls_struct (inst_type a)),
                      cls_name (inst_type b), s_format (cls_struct (inst_type b)),
                      NamedStruct_eq a (Obj b))))))
   = Inr (''A'', ''B'', ''B'', ''H'', True)"
  by (simp add: char_simps build_simps inst_simps NamedStruct_eq_def odict_eq_def)

text \<open>
  Claim C2, amended. Two structure instances, of the same structure type or of two
  different ones, are equal iff their value mappings have the same keys in the same
  order and \<^verbatim>\<open>==\<close> values; the structure types are not compared. (The keys of a
  mapping are distinct.)
\<close>

theorem NamedStruct_eq_values:
  assumes "distinct (map fst (field_values b))"
  shows "NamedStruct_eq a (Obj b) \<longleftrightarrow>
    map fst (field_values a) = map fst (field_values b) \<and>
    list_all2 py_eq (map snd (field_values a)) (map snd (field_values b))"
  using odict_eq_iff [OF assms] by (simp add: NamedStruct_eq_def)

theorem NamedStruct_eq_values_witness:
  "distinct (map fst (field_values Foo_obj)) \<and> NamedStruct_eq Foo_obj (Obj Foo_obj)"
proof -
  have h: "distinct (map fst (field_values Foo_obj))" by (simp add: Foo_obj_def)
  show ?thesis using h NamedStruct_eq_values [OF h, of Foo_obj] by (simp add: Foo_obj_def)
qed

section \<open>The order of the fields\<close>





















section \<open>The width of the layout\<close>




lemma parse_format_space: "parse_format (CHR '' '' # b) = parse_format b"
  by (simp add: is_c_space_def)















section \<open>Packing unset fields\<close>







section \<open>Values longer than a string field\<close>










section \<open>The round trip of one value\<close>























section \<open>The round trip of an instance\<close>































end
